theory Spec2Isabelle
  imports Main
begin

section \<open>The Task collection (models/Task.js) as Mongoose keeps it\<close>

text \<open>
  An ObjectId is a 12-byte value; only its identity matters here, so it is a natural
  number. \<open>toString\<close> of an ObjectId is injective, hence the controller's comparison
  \<^verbatim>\<open>task.user.toString() !== req.user.id\<close> is inequality of the two identifiers.
\<close>

type_synonym oid = nat

text \<open>
  A string that reaches Mongoose where the schema wants an ObjectId (\<^verbatim>\<open>req.params.id\<close>,
  \<^verbatim>\<open>req.body.user\<close>): either it casts to an ObjectId, or the cast fails and the
  operation rejects with a CastError.
\<close>

datatype id_string = Hex oid | NotAnId

text \<open>
  A stored document of the schema: \<^verbatim>\<open>user\<close> (ObjectId, required), \<^verbatim>\<open>title\<close> (String,
  required), \<^verbatim>\<open>status\<close> (String, required, enum, default \<^verbatim>\<open>'todo'\<close>), and the two
  fields of \<^verbatim>\<open>timestamps: true\<close>. \<open>task_id\<close> is the document's \<^verbatim>\<open>_id\<close>.
\<close>

record task =
  task_id :: oid
  user :: oid
  title :: string
  status :: string
  createdAt :: nat
  updatedAt :: nat

text \<open>The collection, in insertion order.\<close>

type_synonym db = "task list"

text \<open>What a rejected promise or a thrown exception carries into the \<^verbatim>\<open>catch\<close> block.\<close>

datatype error = TypeError | CastError | ValidationError | DuplicateKey

text \<open>
  \<^verbatim>\<open>req.body\<close>, restricted to the paths the schema declares, each absent (\<open>None\<close>) or
  a string. \<^verbatim>\<open>express.json()\<close> would also deliver numbers, booleans, null and nested
  values; they are outside this model.
\<close>

record body =
  body_title :: "string option"
  body_status :: "string option"
  body_user :: "id_string option"

definition enum_status :: "string list" where
  "enum_status = [''todo'', ''in-progress'', ''done'']"

text \<open>The first element that satisfies \<open>P\<close> is replaced, or removed.\<close>

fun update_first :: "('a \<Rightarrow> bool) \<Rightarrow> 'a \<Rightarrow> 'a list \<Rightarrow> 'a list" where
  "update_first P y [] = []"
| "update_first P y (x # xs) = (if P x then y # xs else x # update_first P y xs)"

fun remove_first :: "('a \<Rightarrow> bool) \<Rightarrow> 'a list \<Rightarrow> 'a list" where
  "remove_first P [] = []"
| "remove_first P (x # xs) = (if P x then xs else x # remove_first P xs)"

text \<open>\<^verbatim>\<open>Task.find({ user: id })\<close>: the documents of that user.\<close>

definition Task_find :: "oid \<Rightarrow> db \<Rightarrow> task list" where
  "Task_find uid d = filter (\<lambda>t. user t = uid) d"

text \<open>\<^verbatim>\<open>Task.findById(id)\<close>: the document or null; a CastError when \<open>id\<close> is no ObjectId.\<close>

definition Task_findById :: "id_string \<Rightarrow> db \<Rightarrow> error + task option" where
  "Task_findById i d =
     (case i of
        NotAnId \<Rightarrow> Inl CastError
      | Hex k \<Rightarrow> Inr (find (\<lambda>t. task_id t = k) d))"

text \<open>
  \<^verbatim>\<open>Task.create({ title, status, user })\<close>. The document is validated before it is
  saved: a required String must be non-empty, \<^verbatim>\<open>status\<close> must be a member of the enum.
  \<open>new_id\<close> is the ObjectId the driver generates and \<open>now\<close> the clock; the collection's
  unique index on \<^verbatim>\<open>_id\<close> rejects an identifier that is already stored.
\<close>

definition Task_create :: "oid \<Rightarrow> nat \<Rightarrow> string \<Rightarrow> string \<Rightarrow> oid \<Rightarrow> db \<Rightarrow> error + (task \<times> db)" where
  "Task_create new_id now ttl st uid d =
     (if ttl = [] \<or> st \<notin> set enum_status then Inl ValidationError
      else if new_id \<in> task_id ` set d then Inl DuplicateKey
      else
        let doc = \<lparr>task_id = new_id, user = uid, title = ttl, status = st,
                   createdAt = now, updatedAt = now\<rparr>
        in Inr (doc, d @ [doc]))"

text \<open>
  The \<^verbatim>\<open>$set\<close> that \<^verbatim>\<open>findByIdAndUpdate(id, req.body, { new: true })\<close> applies: every
  schema path present in the body replaces the stored value, and the timestamps plugin
  sets \<^verbatim>\<open>updatedAt\<close>. The options do not contain \<^verbatim>\<open>runValidators\<close>, so neither
  \<^verbatim>\<open>required\<close> nor \<^verbatim>\<open>enum\<close> is checked on this path.
\<close>

definition apply_update :: "body \<Rightarrow> nat \<Rightarrow> task \<Rightarrow> task" where
  "apply_update b now t =
     t\<lparr>title := (case body_title b of None \<Rightarrow> title t | Some x \<Rightarrow> x),
       status := (case body_status b of None \<Rightarrow> status t | Some x \<Rightarrow> x),
       user := (case body_user b of Some (Hex u) \<Rightarrow> u | _ \<Rightarrow> user t),
       updatedAt := now\<rparr>"

text \<open>
  \<^verbatim>\<open>Task.findByIdAndUpdate(id, body, { new: true })\<close>: a CastError when the id or the
  body's \<^verbatim>\<open>user\<close> is no ObjectId; null when no document has the id; otherwise the
  updated document.
\<close>

definition Task_findByIdAndUpdate ::
    "id_string \<Rightarrow> body \<Rightarrow> nat \<Rightarrow> db \<Rightarrow> error + (task option \<times> db)" where
  "Task_findByIdAndUpdate i b now d =
     (case i of
        NotAnId \<Rightarrow> Inl CastError
      | Hex k \<Rightarrow>
          if body_user b = Some NotAnId then Inl CastError
          else
            (case find (\<lambda>t. task_id t = k) d of
               None \<Rightarrow> Inr (None, d)
             | Some t \<Rightarrow>
                 let t' = apply_update b now t
                 in Inr (Some t', update_first (\<lambda>x. task_id x = k) t' d)))"

text \<open>\<^verbatim>\<open>task.deleteOne()\<close>: removes the document that has the task's \<^verbatim>\<open>_id\<close>.\<close>

definition deleteOne :: "task \<Rightarrow> db \<Rightarrow> db" where
  "deleteOne t d = remove_first (\<lambda>x. task_id x = task_id t) d"

section \<open>The controller (controllers/taskController.js)\<close>

text \<open>What \<^verbatim>\<open>res.status(code).json(value)\<close> sends.\<close>

datatype payload =
    Tasks "task list"
  | Doc "task option"
  | Message string
  | ErrorMessage error
  | DeletedId id_string

datatype response = Res nat payload

text \<open>
  Each handler takes what it reads of \<^verbatim>\<open>req\<close>: \<open>usr\<close> is \<^verbatim>\<open>req.user\<close> reduced to its
  \<^verbatim>\<open>id\<close> (\<open>None\<close> when no middleware set it: reading \<^verbatim>\<open>req.user.id\<close> then throws a
  TypeError), \<open>i\<close> is \<^verbatim>\<open>req.params.id\<close> and \<open>b\<close> is \<^verbatim>\<open>req.body\<close>. It returns the
  response and the collection after the request.
\<close>

definition getTasks :: "oid option \<Rightarrow> db \<Rightarrow> response \<times> db" where
  "getTasks usr d =
     (case usr of
        None \<Rightarrow> (Res 500 (ErrorMessage TypeError), d)
      | Some u \<Rightarrow> (Res 200 (Tasks (Task_find u d)), d))"

definition createTask :: "oid option \<Rightarrow> body \<Rightarrow> oid \<Rightarrow> nat \<Rightarrow> db \<Rightarrow> response \<times> db" where
  "createTask usr b new_id now d =
     (case body_title b of
        None \<Rightarrow> (Res 400 (Message ''Please add a title''), d)
      | Some ttl \<Rightarrow>
          if ttl = [] then (Res 400 (Message ''Please add a title''), d)
          else
            (case usr of
               None \<Rightarrow> (Res 500 (ErrorMessage TypeError), d)
             | Some u \<Rightarrow>
                 (case Task_create new_id now ttl ''todo'' u d of
                    Inl e \<Rightarrow> (Res 500 (ErrorMessage e), d)
                  | Inr (doc, d') \<Rightarrow> (Res 200 (Doc (Some doc)), d'))))"

definition updateTask :: "oid option \<Rightarrow> id_string \<Rightarrow> body \<Rightarrow> nat \<Rightarrow> db \<Rightarrow> response \<times> db" where
  "updateTask usr i b now d =
     (case Task_findById i d of
        Inl e \<Rightarrow> (Res 500 (ErrorMessage e), d)
      | Inr None \<Rightarrow> (Res 404 (Message ''Task not found''), d)
      | Inr (Some t) \<Rightarrow>
          (case usr of
             None \<Rightarrow> (Res 401 (Message ''User not found''), d)
           | Some u \<Rightarrow>
               if user t \<noteq> u then (Res 401 (Message ''User not authorized''), d)
               else
                 (case Task_findByIdAndUpdate i b now d of
                    Inl e \<Rightarrow> (Res 500 (ErrorMessage e), d)
                  | Inr (updatedTask, d') \<Rightarrow> (Res 200 (Doc updatedTask), d'))))"

definition deleteTask :: "oid option \<Rightarrow> id_string \<Rightarrow> db \<Rightarrow> response \<times> db" where
  "deleteTask usr i d =
     (case Task_findById i d of
        Inl e \<Rightarrow> (Res 500 (ErrorMessage e), d)
      | Inr None \<Rightarrow> (Res 404 (Message ''Task not found''), d)
      | Inr (Some t) \<Rightarrow>
          (case usr of
             None \<Rightarrow> (Res 401 (Message ''User not found''), d)
           | Some u \<Rightarrow>
               if user t \<noteq> u then (Res 401 (Message ''User not authorized''), d)
               else (Res 200 (DeletedId i), deleteOne t d)))"

text \<open>The collection's unique index on \<^verbatim>\<open>_id\<close>: no two documents share an identifier.\<close>

definition unique_ids :: "db \<Rightarrow> bool" where
  "unique_ids d = distinct (map task_id d)"

section \<open>The client's service layer (src/App.jsx)\<close>

text \<open>
  A task as the client holds it: the fields it reads of a JSON object (\<open>c_id\<close> is
  \<^verbatim>\<open>_id\<close>). The mock's objects have exactly these fields; the server's documents have
  more, which the client never reads.
\<close>

record ctask =
  c_id :: string
  c_title :: string
  c_status :: string

text \<open>
  What a rejected call carries: the mock throws \<^verbatim>\<open>new Error(message)\<close>, axios rejects
  with the status and the body of a response outside 2xx.
\<close>

datatype client_error = Error string | AxiosError nat payload

text \<open>
  The \<^verbatim>\<open>mock_tasks\<close> item of localStorage, parsed; \<open>None\<close> while it was never set.
  \<^verbatim>\<open>JSON.parse(localStorage.getItem('mock_tasks') || '[]')\<close> reads it.
\<close>

type_synonym localStorage = "ctask list option"

definition mock_tasks :: "localStorage \<Rightarrow> ctask list" where
  "mock_tasks ls = (case ls of None \<Rightarrow> [] | Some ts \<Rightarrow> ts)"

definition seed :: "ctask list" where
  "seed =
     [\<lparr>c_id = ''1'', c_title = ''Start learning Full Stack Development'', c_status = ''in-progress''\<rparr>,
      \<lparr>c_id = ''2'', c_title = ''Build the Frontend'', c_status = ''done''\<rparr>,
      \<lparr>c_id = ''3'', c_title = ''Setup MongoDB Database'', c_status = ''todo''\<rparr>]"

text \<open>
  The four task operations of \<^verbatim>\<open>MockBackend\<close>, as \<^verbatim>\<open>taskService\<close> calls them in demo
  mode: \<^verbatim>\<open>createTask({ title })\<close>, \<^verbatim>\<open>updateTask(id, { status })\<close>. Each returns what the
  promise settles with and the storage afterwards. \<open>now_str\<close> is
  \<^verbatim>\<open>Date.now().toString()\<close>.
\<close>

definition MockBackend_fetchTasks :: "localStorage \<Rightarrow> (client_error + ctask list) \<times> localStorage" where
  "MockBackend_fetchTasks ls =
     (let tasks = mock_tasks ls
      in if tasks = [] then (Inr seed, Some seed) else (Inr tasks, ls))"

definition MockBackend_createTask ::
    "string \<Rightarrow> string \<Rightarrow> localStorage \<Rightarrow> (client_error + ctask) \<times> localStorage" where
  "MockBackend_createTask ttl now_str ls =
     (let tasks = mock_tasks ls;
          newTask = \<lparr>c_id = now_str, c_title = ttl, c_status = ''todo''\<rparr>
      in (Inr newTask, Some (tasks @ [newTask])))"

definition MockBackend_updateTask ::
    "string \<Rightarrow> string \<Rightarrow> localStorage \<Rightarrow> (client_error + ctask) \<times> localStorage" where
  "MockBackend_updateTask i st ls =
     (let tasks = mock_tasks ls
      in case find (\<lambda>t. c_id t = i) tasks of
           Some t \<Rightarrow>
             let t' = t\<lparr>c_status := st\<rparr>
             in (Inr t', Some (update_first (\<lambda>x. c_id x = i) t' tasks))
         | None \<Rightarrow> (Inl (Error ''Task not found''), ls))"

text \<open>\<^verbatim>\<open>deleteTask\<close> resolves with \<^verbatim>\<open>{ success: true }\<close>, here \<open>True\<close>.\<close>

definition MockBackend_deleteTask :: "string \<Rightarrow> localStorage \<Rightarrow> (client_error + bool) \<times> localStorage" where
  "MockBackend_deleteTask i ls =
     (let tasks = mock_tasks ls;
          filtered = filter (\<lambda>t. c_id t \<noteq> i) tasks
      in (Inr True, Some filtered))"

text \<open>
  axios resolves with the response when its status is 2xx (\<^verbatim>\<open>res.data\<close> is then
  returned) and rejects otherwise.
\<close>

definition axios :: "response \<Rightarrow> client_error + payload" where
  "axios r = (case r of Res c p \<Rightarrow> if 200 \<le> c \<and> c < 300 then Inr p else Inl (AxiosError c p))"

text \<open>
  \<^verbatim>\<open>taskService\<close> with \<^verbatim>\<open>DEMO_MODE = false\<close>, the value in the source: each operation is
  the HTTP call to the route the controller's comments name (\<^verbatim>\<open>GET /api/tasks\<close>,
  \<^verbatim>\<open>POST /api/tasks\<close>, \<^verbatim>\<open>PUT /api/tasks/:id\<close>, \<^verbatim>\<open>DELETE /api/tasks/:id\<close>). With
  \<^verbatim>\<open>DEMO_MODE = true\<close> each operation is the \<^verbatim>\<open>MockBackend\<close> call above. The routes and
  the middleware that turns the bearer token into \<^verbatim>\<open>req.user\<close> are not in the
  sources; \<open>usr\<close> is the identity that middleware attaches.
\<close>

definition taskService_getAll :: "oid option \<Rightarrow> db \<Rightarrow> (client_error + payload) \<times> db" where
  "taskService_getAll usr d = (case getTasks usr d of (r, d') \<Rightarrow> (axios r, d'))"

definition taskService_create ::
    "oid option \<Rightarrow> string \<Rightarrow> oid \<Rightarrow> nat \<Rightarrow> db \<Rightarrow> (client_error + payload) \<times> db" where
  "taskService_create usr ttl new_id now d =
     (case createTask usr \<lparr>body_title = Some ttl, body_status = None, body_user = None\<rparr> new_id now d of
        (r, d') \<Rightarrow> (axios r, d'))"

definition taskService_update ::
    "oid option \<Rightarrow> id_string \<Rightarrow> string \<Rightarrow> nat \<Rightarrow> db \<Rightarrow> (client_error + payload) \<times> db" where
  "taskService_update usr i st now d =
     (case updateTask usr i \<lparr>body_title = None, body_status = Some st, body_user = None\<rparr> now d of
        (r, d') \<Rightarrow> (axios r, d'))"

definition taskService_delete :: "oid option \<Rightarrow> id_string \<Rightarrow> db \<Rightarrow> (client_error + payload) \<times> db" where
  "taskService_delete usr i d = (case deleteTask usr i d of (r, d') \<Rightarrow> (axios r, d'))"

text \<open>What the Dashboard renders of a task: its title and its status.\<close>

definition shown :: "ctask \<Rightarrow> string \<times> string" where
  "shown t = (c_title t, c_status t)"

definition shown_doc :: "task \<Rightarrow> string \<times> string" where
  "shown_doc t = (title t, status t)"

section \<open>The Dashboard's handlers (src/App.jsx)\<close>

text \<open>
  The component's state (\<open>filter_by\<close> is the state variable \<^verbatim>\<open>filter\<close>). The component
  renders from this state alone.
\<close>

record dashboard =
  tasks :: "ctask list"
  loading :: bool
  newTaskTitle :: string
  filter_by :: string

text \<open>
  What a handler does besides setting state: \<^verbatim>\<open>window.confirm\<close> opens a dialog,
  \<^verbatim>\<open>console.error\<close> writes to the developer console. Only the dialog is shown to the
  user.
\<close>

datatype effect = Confirm string | ConsoleError client_error

definition user_visible :: "effect \<Rightarrow> bool" where
  "user_visible e = (case e of Confirm m \<Rightarrow> True | ConsoleError x \<Rightarrow> False)"

text \<open>
  \<^verbatim>\<open>!s.trim()\<close>: every character of \<open>s\<close> is white space. The strings of this model
  are ASCII, where the white space that \<^verbatim>\<open>trim\<close> strips is tab, line feed, vertical
  tab, form feed, carriage return and space. \<^verbatim>\<open>trim\<close> also strips the white space
  beyond ASCII (U+00A0, U+FEFF, U+2028, U+2029, the class Zs); a title made of those is
  outside the model.
\<close>

definition is_space :: "char \<Rightarrow> bool" where
  "is_space c = (c \<in> set [CHR 0x09, CHR 0x0A, CHR 0x0B, CHR 0x0C, CHR 0x0D, CHR '' ''])"

definition blank :: "string \<Rightarrow> bool" where
  "blank s = list_all is_space s"

text \<open>
  Each handler awaits one service call; \<open>outcome\<close> is what that call settled with
  (\<open>Inl\<close> the rejection). The handler returns the new state and its effects in order.
\<close>

definition fetchTasks :: "client_error + ctask list \<Rightarrow> dashboard \<Rightarrow> dashboard \<times> effect list" where
  "fetchTasks outcome s =
     (case outcome of
        Inr data \<Rightarrow> (s\<lparr>tasks := data, loading := False\<rparr>, [])
      | Inl err \<Rightarrow> (s\<lparr>loading := False\<rparr>, [ConsoleError err]))"

definition handleAddTask :: "client_error + ctask \<Rightarrow> dashboard \<Rightarrow> dashboard \<times> effect list" where
  "handleAddTask outcome s =
     (if blank (newTaskTitle s) then (s, [])
      else
        (case outcome of
           Inr newTask \<Rightarrow> (s\<lparr>tasks := tasks s @ [newTask], newTaskTitle := []\<rparr>, [])
         | Inl err \<Rightarrow> (s, [ConsoleError err])))"

definition handleUpdateStatus ::
    "client_error + ctask \<Rightarrow> string \<Rightarrow> dashboard \<Rightarrow> dashboard \<times> effect list" where
  "handleUpdateStatus outcome i s =
     (case outcome of
        Inr updated \<Rightarrow> (s\<lparr>tasks := map (\<lambda>t. if c_id t = i then updated else t) (tasks s)\<rparr>, [])
      | Inl err \<Rightarrow> (s, [ConsoleError err]))"

text \<open>\<open>confirmed\<close> is the answer to the dialog; the service is called only after a yes.\<close>

definition handleDelete ::
    "bool \<Rightarrow> client_error + 'a \<Rightarrow> string \<Rightarrow> dashboard \<Rightarrow> dashboard \<times> effect list" where
  "handleDelete confirmed outcome i s =
     (if \<not> confirmed then (s, [Confirm ''Are you sure you want to delete this task?''])
      else
        (case outcome of
           Inr ok \<Rightarrow>
             (s\<lparr>tasks := filter (\<lambda>t. c_id t \<noteq> i) (tasks s)\<rparr>,
              [Confirm ''Are you sure you want to delete this task?''])
         | Inl err \<Rightarrow>
             (s, [Confirm ''Are you sure you want to delete this task?'', ConsoleError err])))"

section \<open>Lookup, replacement and removal in the collection\<close>

lemma find_None_iff_absent: "find (\<lambda>t. task_id t = k) d = None \<longleftrightarrow> k \<notin> task_id ` set d"
  by (induction d) auto

lemma find_present:
  "distinct (map task_id d) \<Longrightarrow> T \<in> set d \<Longrightarrow> find (\<lambda>t. task_id t = task_id T) d = Some T"
  by (induction d) (auto simp: image_iff)

lemma findById_absent: "k \<notin> task_id ` set d \<Longrightarrow> Task_findById (Hex k) d = Inr None"
  by (simp add: Task_findById_def find_None_iff_absent)

lemma findById_present:
  "unique_ids d \<Longrightarrow> T \<in> set d \<Longrightarrow> Task_findById (Hex (task_id T)) d = Inr (Some T)"
  by (simp add: Task_findById_def unique_ids_def find_present)

lemma remove_first_filter:
  "distinct (map task_id d) \<Longrightarrow>
     remove_first (\<lambda>x. task_id x = k) d = filter (\<lambda>x. task_id x \<noteq> k) d"
proof (induction d)
  case Nil
  then show ?case by simp
next
  case (Cons a d)
  show ?case
  proof (cases "task_id a = k")
    case True
    with Cons.prems have "k \<notin> task_id ` set d" by auto
    then have "filter (\<lambda>x. task_id x \<noteq> k) d = d"
      by (auto simp: filter_id_conv)
    with True show ?thesis by simp
  next
    case False
    with Cons show ?thesis by simp
  qed
qed

lemma update_not_found:
  "k \<notin> task_id ` set d \<Longrightarrow> updateTask usr (Hex k) b now d = (Res 404 (Message ''Task not found''), d)"
  by (simp add: updateTask_def findById_absent)

lemma delete_not_found:
  "k \<notin> task_id ` set d \<Longrightarrow> deleteTask usr (Hex k) d = (Res 404 (Message ''Task not found''), d)"
  by (simp add: deleteTask_def findById_absent)

lemma delete_not_found_fold:
  "k \<notin> task_id ` set d \<Longrightarrow> fold (\<lambda>w x. snd (deleteTask w (Hex k) x)) ws d = d"
  by (induction ws) (simp_all add: delete_not_found)

lemma delete_own:
  "unique_ids d \<Longrightarrow> T \<in> set d \<Longrightarrow>
     deleteTask (Some (user T)) (Hex (task_id T)) d =
       (Res 200 (DeletedId (Hex (task_id T))), filter (\<lambda>x. task_id x \<noteq> task_id T) d)"
  by (simp add: deleteTask_def findById_present deleteOne_def remove_first_filter unique_ids_def)

lemma filter_absent: "k \<notin> task_id ` set (filter (\<lambda>x. task_id x \<noteq> k) d)"
  by auto

lemma remove_first_subset: "set (remove_first P xs) \<subseteq> set xs"
  by (induction xs) auto

lemma map_update_first:
  "find P xs = Some x \<Longrightarrow> f y = f x \<Longrightarrow> map f (update_first P y xs) = map f xs"
  by (induction xs) (auto split: if_splits)

lemma apply_update_id [simp]: "task_id (apply_update b now t) = task_id t"
  by (simp add: apply_update_def)

lemma getTasks_keeps: "snd (getTasks usr d) = d"
  by (simp add: getTasks_def split: option.splits)

lemma createTask_appends: "\<exists>new. snd (createTask usr b new_id now d) = d @ new"
  by (auto simp: createTask_def Task_create_def Let_def split: option.splits)

lemma deleteTask_removes: "set (snd (deleteTask usr i d)) \<subseteq> set d"
  by (auto simp: deleteTask_def deleteOne_def Task_findById_def
      split: id_string.splits option.splits dest: subsetD [OF remove_first_subset])

section \<open>The collection keeps unique identifiers\<close>

text \<open>
  Every handler keeps the identifiers of the collection unique, so every collection that
  the four handlers build from a collection with unique identifiers has them unique.
\<close>

lemma distinct_update_first:
  "distinct (map f xs) \<Longrightarrow> find P xs = Some x \<Longrightarrow> f y = f x \<Longrightarrow>
     distinct (map f (update_first P y xs))"
  by (simp add: map_update_first)

lemma distinct_remove_first: "distinct (map f xs) \<Longrightarrow> distinct (map f (remove_first P xs))"
proof (induction xs)
  case Nil
  then show ?case by simp
next
  case (Cons a xs)
  have "set (remove_first P xs) \<subseteq> set xs" by (rule remove_first_subset)
  with Cons show ?case by auto
qed

lemma handlers_keep_unique_ids:
  assumes "unique_ids d"
  shows "unique_ids (snd (getTasks usr d))"
    and "unique_ids (snd (createTask usr b new_id now d))"
    and "unique_ids (snd (updateTask usr i b now d))"
    and "unique_ids (snd (deleteTask usr i d))"
proof -
  show "unique_ids (snd (getTasks usr d))"
    using assms by (simp add: getTasks_keeps)
  show "unique_ids (snd (createTask usr b new_id now d))"
    using assms
    by (auto simp: createTask_def Task_create_def Let_def unique_ids_def split: option.splits)
  show "unique_ids (snd (updateTask usr i b now d))"
    using assms
    by (auto simp: updateTask_def Task_findById_def Task_findByIdAndUpdate_def Let_def
        unique_ids_def map_update_first
        split: id_string.splits option.splits)
  show "unique_ids (snd (deleteTask usr i d))"
    using assms
    by (auto simp: deleteTask_def Task_findById_def deleteOne_def unique_ids_def
        distinct_remove_first
        split: id_string.splits option.splits)
qed

section \<open>Ownership isolation\<close>

text \<open>
  Claim C1. A task \<open>T\<close> owned by another user than the acting user \<open>u1\<close> is not in the
  list that \<open>getTasks\<close> answers to \<open>u1\<close>, and \<open>updateTask\<close> and \<open>deleteTask\<close> by \<open>u1\<close> on
  the id of \<open>T\<close> answer 401 "User not authorized" and leave the whole collection, hence
  \<open>T\<close>, as it was, whatever the body of the update.
\<close>

theorem C1_ownership_isolation:
  "unique_ids d \<Longrightarrow> T \<in> set d \<Longrightarrow> user T \<noteq> u1 \<Longrightarrow>
     getTasks (Some u1) d = (Res 200 (Tasks (Task_find u1 d)), d) \<and>
     T \<notin> set (Task_find u1 d) \<and>
     updateTask (Some u1) (Hex (task_id T)) b now d = (Res 401 (Message ''User not authorized''), d) \<and>
     deleteTask (Some u1) (Hex (task_id T)) d = (Res 401 (Message ''User not authorized''), d)"
proof -
  assume uniq: "unique_ids d" and stored: "T \<in> set d" and other: "user T \<noteq> u1"
  have found: "Task_findById (Hex (task_id T)) d = Inr (Some T)"
    using uniq stored by (rule findById_present)
  have "getTasks (Some u1) d = (Res 200 (Tasks (Task_find u1 d)), d)"
    by (simp add: getTasks_def)
  moreover have "T \<notin> set (Task_find u1 d)"
    using other by (simp add: Task_find_def)
  moreover have "updateTask (Some u1) (Hex (task_id T)) b now d =
      (Res 401 (Message ''User not authorized''), d)"
    using found other by (simp add: updateTask_def)
  moreover have "deleteTask (Some u1) (Hex (task_id T)) d =
      (Res 401 (Message ''User not authorized''), d)"
    using found other by (simp add: deleteTask_def)
  ultimately show ?thesis by simp
qed

theorem C1_ownership_isolation_witness:
  "unique_ids [\<lparr>task_id = 7, user = 2, title = ''Write spec'', status = ''todo'', createdAt = 10, updatedAt = 10\<rparr>] \<and>
   \<lparr>task_id = 7, user = 2, title = ''Write spec'', status = ''todo'', createdAt = 10, updatedAt = 10\<rparr>
     \<in> set [\<lparr>task_id = 7, user = 2, title = ''Write spec'', status = ''todo'', createdAt = 10, updatedAt = 10\<rparr>] \<and>
   user \<lparr>task_id = 7, user = 2, title = ''Write spec'', status = ''todo'', createdAt = 10, updatedAt = 10\<rparr> \<noteq> 1 \<and>
   getTasks (Some 1)
     [\<lparr>task_id = 7, user = 2, title = ''Write spec'', status = ''todo'', createdAt = 10, updatedAt = 10\<rparr>] =
     (Res 200 (Tasks []),
      [\<lparr>task_id = 7, user = 2, title = ''Write spec'', status = ''todo'', createdAt = 10, updatedAt = 10\<rparr>]) \<and>
   updateTask (Some 1) (Hex 7) \<lparr>body_title = None, body_status = Some ''done'', body_user = None\<rparr> 20
     [\<lparr>task_id = 7, user = 2, title = ''Write spec'', status = ''todo'', createdAt = 10, updatedAt = 10\<rparr>] =
     (Res 401 (Message ''User not authorized''),
      [\<lparr>task_id = 7, user = 2, title = ''Write spec'', status = ''todo'', createdAt = 10, updatedAt = 10\<rparr>]) \<and>
   deleteTask (Some 1) (Hex 7)
     [\<lparr>task_id = 7, user = 2, title = ''Write spec'', status = ''todo'', createdAt = 10, updatedAt = 10\<rparr>] =
     (Res 401 (Message ''User not authorized''),
      [\<lparr>task_id = 7, user = 2, title = ''Write spec'', status = ''todo'', createdAt = 10, updatedAt = 10\<rparr>])"
  using C1_ownership_isolation
    [of "[\<lparr>task_id = 7, user = 2, title = ''Write spec'', status = ''todo'', createdAt = 10, updatedAt = 10\<rparr>]"
        "\<lparr>task_id = 7, user = 2, title = ''Write spec'', status = ''todo'', createdAt = 10, updatedAt = 10\<rparr>"
        1 "\<lparr>body_title = None, body_status = Some ''done'', body_user = None\<rparr>" 20]
  by (simp add: unique_ids_def Task_find_def)

section \<open>Missing tasks\<close>

text \<open>
  Claim C5 as stated fails. The path parameter of \<^verbatim>\<open>PUT /api/tasks/abc\<close> and of
  \<^verbatim>\<open>DELETE /api/tasks/abc\<close> is an id that no task has, yet it is no ObjectId:
  \<^verbatim>\<open>Task.findById\<close> rejects with a CastError, and the handler's catch block answers
  500, not 404, whoever asks.
\<close>

theorem C5_malformed_id_answers_500:
  "updateTask (Some 2) NotAnId \<lparr>body_title = None, body_status = Some ''done'', body_user = None\<rparr> 20
     [\<lparr>task_id = 7, user = 2, title = ''Write spec'', status = ''todo'', createdAt = 10, updatedAt = 10\<rparr>] =
     (Res 500 (ErrorMessage CastError),
      [\<lparr>task_id = 7, user = 2, title = ''Write spec'', status = ''todo'', createdAt = 10, updatedAt = 10\<rparr>]) \<and>
   deleteTask (Some 2) NotAnId
     [\<lparr>task_id = 7, user = 2, title = ''Write spec'', status = ''todo'', createdAt = 10, updatedAt = 10\<rparr>] =
     (Res 500 (ErrorMessage CastError),
      [\<lparr>task_id = 7, user = 2, title = ''Write spec'', status = ''todo'', createdAt = 10, updatedAt = 10\<rparr>])"
  by (simp add: updateTask_def deleteTask_def Task_findById_def)

text \<open>
  Claim C5, amended. When no task has the id \<open>k\<close>, an ObjectId, \<open>updateTask\<close> and
  \<open>deleteTask\<close> answer 404 "Task not found" for every acting identity, absent or not the
  owner included: existence is checked before authorization. After the owner has
  deleted a stored task, a further delete of its id by anyone answers 404 and changes
  nothing, so every later attempt in any sequence \<open>ws\<close> of acting identities meets the
  same collection and the same answer. An id that is no ObjectId is answered 500 by the
  catch block of the handler, for every acting identity, and changes nothing.
\<close>

theorem C5_not_found_before_authorization:
  "(k \<notin> task_id ` set d \<longrightarrow>
      updateTask usr (Hex k) b now d = (Res 404 (Message ''Task not found''), d) \<and>
      deleteTask usr (Hex k) d = (Res 404 (Message ''Task not found''), d)) \<and>
   (unique_ids d \<and> T \<in> set d \<and> task_id T = k \<longrightarrow>
      fst (deleteTask (Some (user T)) (Hex k) d) = Res 200 (DeletedId (Hex k)) \<and>
      (let d' = snd (deleteTask (Some (user T)) (Hex k) d) in
         deleteTask usr (Hex k) d' = (Res 404 (Message ''Task not found''), d') \<and>
         fold (\<lambda>w x. snd (deleteTask w (Hex k) x)) ws d' = d')) \<and>
   updateTask usr NotAnId b now d = (Res 500 (ErrorMessage CastError), d) \<and>
   deleteTask usr NotAnId d = (Res 500 (ErrorMessage CastError), d)"
proof (intro conjI impI)
  assume "k \<notin> task_id ` set d"
  then show "updateTask usr (Hex k) b now d = (Res 404 (Message ''Task not found''), d)"
    and "deleteTask usr (Hex k) d = (Res 404 (Message ''Task not found''), d)"
    by (rule update_not_found, rule delete_not_found)
next
  assume a: "unique_ids d \<and> T \<in> set d \<and> task_id T = k"
  then have del: "deleteTask (Some (user T)) (Hex k) d =
      (Res 200 (DeletedId (Hex k)), filter (\<lambda>x. task_id x \<noteq> k) d)"
    using delete_own [of d T] by auto
  then show "fst (deleteTask (Some (user T)) (Hex k) d) = Res 200 (DeletedId (Hex k))"
    by simp
  show "let d' = snd (deleteTask (Some (user T)) (Hex k) d) in
         deleteTask usr (Hex k) d' = (Res 404 (Message ''Task not found''), d') \<and>
         fold (\<lambda>w x. snd (deleteTask w (Hex k) x)) ws d' = d'"
    using del delete_not_found [OF filter_absent] delete_not_found_fold [OF filter_absent]
    by (simp add: Let_def)
next
  show "updateTask usr NotAnId b now d = (Res 500 (ErrorMessage CastError), d)"
    by (simp add: updateTask_def Task_findById_def)
  show "deleteTask usr NotAnId d = (Res 500 (ErrorMessage CastError), d)"
    by (simp add: deleteTask_def Task_findById_def)
qed

theorem C5_not_found_before_authorization_witness:
  "(9::nat) \<notin> task_id ` set [\<lparr>task_id = 7, user = 2, title = ''Write spec'', status = ''todo'', createdAt = 10, updatedAt = 10\<rparr>] \<and>
   updateTask None (Hex 9) \<lparr>body_title = None, body_status = Some ''done'', body_user = None\<rparr> 20
     [\<lparr>task_id = 7, user = 2, title = ''Write spec'', status = ''todo'', createdAt = 10, updatedAt = 10\<rparr>] =
     (Res 404 (Message ''Task not found''),
      [\<lparr>task_id = 7, user = 2, title = ''Write spec'', status = ''todo'', createdAt = 10, updatedAt = 10\<rparr>]) \<and>
   deleteTask None (Hex 9)
     [\<lparr>task_id = 7, user = 2, title = ''Write spec'', status = ''todo'', createdAt = 10, updatedAt = 10\<rparr>] =
     (Res 404 (Message ''Task not found''),
      [\<lparr>task_id = 7, user = 2, title = ''Write spec'', status = ''todo'', createdAt = 10, updatedAt = 10\<rparr>]) \<and>
   unique_ids [\<lparr>task_id = 7, user = 2, title = ''Write spec'', status = ''todo'', createdAt = 10, updatedAt = 10\<rparr>] \<and>
   \<lparr>task_id = 7, user = 2, title = ''Write spec'', status = ''todo'', createdAt = 10, updatedAt = 10\<rparr>
     \<in> set [\<lparr>task_id = 7, user = 2, title = ''Write spec'', status = ''todo'', createdAt = 10, updatedAt = 10\<rparr>] \<and>
   deleteTask (Some 2) (Hex 7)
     [\<lparr>task_id = 7, user = 2, title = ''Write spec'', status = ''todo'', createdAt = 10, updatedAt = 10\<rparr>] =
     (Res 200 (DeletedId (Hex 7)), []) \<and>
   deleteTask None (Hex 7) [] = (Res 404 (Message ''Task not found''), []) \<and>
   fold (\<lambda>w x. snd (deleteTask w (Hex 7) x)) [Some 2, None, Some 1] [] = []"
  using C5_not_found_before_authorization
    [of 9 "[\<lparr>task_id = 7, user = 2, title = ''Write spec'', status = ''todo'', createdAt = 10, updatedAt = 10\<rparr>]"
        None "\<lparr>body_title = None, body_status = Some ''done'', body_user = None\<rparr>" 20
        "\<lparr>task_id = 7, user = 2, title = ''Write spec'', status = ''todo'', createdAt = 10, updatedAt = 10\<rparr>"
        "[]"]
    C5_not_found_before_authorization
    [of 7 "[\<lparr>task_id = 7, user = 2, title = ''Write spec'', status = ''todo'', createdAt = 10, updatedAt = 10\<rparr>]"
        None "\<lparr>body_title = None, body_status = Some ''done'', body_user = None\<rparr>" 20
        "\<lparr>task_id = 7, user = 2, title = ''Write spec'', status = ''todo'', createdAt = 10, updatedAt = 10\<rparr>"
        "[Some 2, None, Some 1]"]
  by (simp add: unique_ids_def Let_def deleteTask_def Task_findById_def deleteOne_def)

section \<open>Delete by the owner\<close>

text \<open>
  Claim C9. When the owner \<open>u\<close> of a stored task \<open>T\<close> deletes it, \<open>deleteTask\<close> answers 200
  with the id it was given and the collection keeps exactly the documents with another
  id, so \<open>T\<close> is gone; a later lookup of the id finds nothing, and a later update or
  delete of it by anyone answers 404 "Task not found".
\<close>

theorem C9_delete_removes_task:
  "unique_ids d \<Longrightarrow> T \<in> set d \<Longrightarrow> user T = u \<Longrightarrow>
     deleteTask (Some u) (Hex (task_id T)) d =
       (Res 200 (DeletedId (Hex (task_id T))), filter (\<lambda>x. task_id x \<noteq> task_id T) d) \<and>
     T \<notin> set (snd (deleteTask (Some u) (Hex (task_id T)) d)) \<and>
     Task_findById (Hex (task_id T)) (snd (deleteTask (Some u) (Hex (task_id T)) d)) = Inr None \<and>
     fst (updateTask usr (Hex (task_id T)) b now (snd (deleteTask (Some u) (Hex (task_id T)) d))) =
       Res 404 (Message ''Task not found'') \<and>
     fst (deleteTask usr (Hex (task_id T)) (snd (deleteTask (Some u) (Hex (task_id T)) d))) =
       Res 404 (Message ''Task not found'')"
proof -
  assume a: "unique_ids d" "T \<in> set d" "user T = u"
  let ?d' = "filter (\<lambda>x. task_id x \<noteq> task_id T) d"
  have del: "deleteTask (Some u) (Hex (task_id T)) d = (Res 200 (DeletedId (Hex (task_id T))), ?d')"
    using delete_own [OF a(1,2)] a(3) by simp
  have absent: "task_id T \<notin> task_id ` set ?d'"
    by (rule filter_absent)
  have "T \<notin> set ?d'" by simp
  moreover have "Task_findById (Hex (task_id T)) ?d' = Inr None"
    using absent by (rule findById_absent)
  moreover have "fst (updateTask usr (Hex (task_id T)) b now ?d') = Res 404 (Message ''Task not found'')"
    using update_not_found [OF absent] by simp
  moreover have "fst (deleteTask usr (Hex (task_id T)) ?d') = Res 404 (Message ''Task not found'')"
    using delete_not_found [OF absent] by simp
  ultimately show ?thesis using del by simp
qed

theorem C9_delete_removes_task_witness:
  "unique_ids
     [\<lparr>task_id = 7, user = 2, title = ''Write spec'', status = ''todo'', createdAt = 10, updatedAt = 10\<rparr>,
      \<lparr>task_id = 8, user = 2, title = ''Buy milk'', status = ''done'', createdAt = 11, updatedAt = 12\<rparr>] \<and>
   \<lparr>task_id = 7, user = 2, title = ''Write spec'', status = ''todo'', createdAt = 10, updatedAt = 10\<rparr>
     \<in> set
     [\<lparr>task_id = 7, user = 2, title = ''Write spec'', status = ''todo'', createdAt = 10, updatedAt = 10\<rparr>,
      \<lparr>task_id = 8, user = 2, title = ''Buy milk'', status = ''done'', createdAt = 11, updatedAt = 12\<rparr>] \<and>
   deleteTask (Some 2) (Hex 7)
     [\<lparr>task_id = 7, user = 2, title = ''Write spec'', status = ''todo'', createdAt = 10, updatedAt = 10\<rparr>,
      \<lparr>task_id = 8, user = 2, title = ''Buy milk'', status = ''done'', createdAt = 11, updatedAt = 12\<rparr>] =
     (Res 200 (DeletedId (Hex 7)),
      [\<lparr>task_id = 8, user = 2, title = ''Buy milk'', status = ''done'', createdAt = 11, updatedAt = 12\<rparr>]) \<and>
   Task_findById (Hex 7)
     [\<lparr>task_id = 8, user = 2, title = ''Buy milk'', status = ''done'', createdAt = 11, updatedAt = 12\<rparr>] =
     Inr None \<and>
   fst (deleteTask (Some 2) (Hex 7)
     [\<lparr>task_id = 8, user = 2, title = ''Buy milk'', status = ''done'', createdAt = 11, updatedAt = 12\<rparr>]) =
     Res 404 (Message ''Task not found'')"
  using C9_delete_removes_task
    [of "[\<lparr>task_id = 7, user = 2, title = ''Write spec'', status = ''todo'', createdAt = 10, updatedAt = 10\<rparr>,
          \<lparr>task_id = 8, user = 2, title = ''Buy milk'', status = ''done'', createdAt = 11, updatedAt = 12\<rparr>]"
        "\<lparr>task_id = 7, user = 2, title = ''Write spec'', status = ''todo'', createdAt = 10, updatedAt = 10\<rparr>"
        2 "Some 2" "\<lparr>body_title = None, body_status = None, body_user = None\<rparr>" 20]
  by (simp add: unique_ids_def deleteTask_def Task_findById_def deleteOne_def)

section \<open>Requests without an acting identity\<close>

text \<open>
  Claim C10. With \<^verbatim>\<open>req.user\<close> absent, \<open>getTasks\<close> answers 500 (the TypeError of reading
  \<^verbatim>\<open>req.user.id\<close>, caught by the handler) and not 401; \<open>createTask\<close> answers 400 when the
  title is missing or empty and 500 otherwise, storing nothing; \<open>updateTask\<close> and
  \<open>deleteTask\<close> on the id of a stored task answer 401 "User not found".
\<close>

theorem C10_absent_identity:
  "getTasks None d = (Res 500 (ErrorMessage TypeError), d) \<and>
   createTask None b new_id now d =
     (if body_title b = None \<or> body_title b = Some [] then (Res 400 (Message ''Please add a title''), d)
      else (Res 500 (ErrorMessage TypeError), d)) \<and>
   (k \<in> task_id ` set d \<longrightarrow>
      updateTask None (Hex k) b now d = (Res 401 (Message ''User not found''), d) \<and>
      deleteTask None (Hex k) d = (Res 401 (Message ''User not found''), d))"
proof (intro conjI impI)
  show "getTasks None d = (Res 500 (ErrorMessage TypeError), d)"
    by (simp add: getTasks_def)
  show "createTask None b new_id now d =
     (if body_title b = None \<or> body_title b = Some [] then (Res 400 (Message ''Please add a title''), d)
      else (Res 500 (ErrorMessage TypeError), d))"
    by (simp add: createTask_def split: option.splits)
next
  assume "k \<in> task_id ` set d"
  then obtain t where t: "find (\<lambda>t. task_id t = k) d = Some t"
    using find_None_iff_absent [of k d] by (cases "find (\<lambda>t. task_id t = k) d") auto
  then show "updateTask None (Hex k) b now d = (Res 401 (Message ''User not found''), d)"
    and "deleteTask None (Hex k) d = (Res 401 (Message ''User not found''), d)"
    by (simp_all add: updateTask_def deleteTask_def Task_findById_def)
qed

theorem C10_absent_identity_witness:
  "getTasks None
     [\<lparr>task_id = 7, user = 2, title = ''Write spec'', status = ''todo'', createdAt = 10, updatedAt = 10\<rparr>] =
     (Res 500 (ErrorMessage TypeError),
      [\<lparr>task_id = 7, user = 2, title = ''Write spec'', status = ''todo'', createdAt = 10, updatedAt = 10\<rparr>]) \<and>
   createTask None \<lparr>body_title = Some ''Buy milk'', body_status = None, body_user = None\<rparr> 8 20
     [\<lparr>task_id = 7, user = 2, title = ''Write spec'', status = ''todo'', createdAt = 10, updatedAt = 10\<rparr>] =
     (Res 500 (ErrorMessage TypeError),
      [\<lparr>task_id = 7, user = 2, title = ''Write spec'', status = ''todo'', createdAt = 10, updatedAt = 10\<rparr>]) \<and>
   (7::nat) \<in> task_id ` set
     [\<lparr>task_id = 7, user = 2, title = ''Write spec'', status = ''todo'', createdAt = 10, updatedAt = 10\<rparr>] \<and>
   updateTask None (Hex 7) \<lparr>body_title = Some ''Buy milk'', body_status = None, body_user = None\<rparr> 20
     [\<lparr>task_id = 7, user = 2, title = ''Write spec'', status = ''todo'', createdAt = 10, updatedAt = 10\<rparr>] =
     (Res 401 (Message ''User not found''),
      [\<lparr>task_id = 7, user = 2, title = ''Write spec'', status = ''todo'', createdAt = 10, updatedAt = 10\<rparr>]) \<and>
   deleteTask None (Hex 7)
     [\<lparr>task_id = 7, user = 2, title = ''Write spec'', status = ''todo'', createdAt = 10, updatedAt = 10\<rparr>] =
     (Res 401 (Message ''User not found''),
      [\<lparr>task_id = 7, user = 2, title = ''Write spec'', status = ''todo'', createdAt = 10, updatedAt = 10\<rparr>])"
  using C10_absent_identity
    [of "[\<lparr>task_id = 7, user = 2, title = ''Write spec'', status = ''todo'', createdAt = 10, updatedAt = 10\<rparr>]"
        "\<lparr>body_title = Some ''Buy milk'', body_status = None, body_user = None\<rparr>" 8 20 7]
  by simp

section \<open>Create\<close>

lemma create_fresh:
  "ttl \<noteq> [] \<Longrightarrow> new_id \<notin> task_id ` set d \<Longrightarrow>
     createTask (Some u) \<lparr>body_title = Some ttl, body_status = bs, body_user = bu\<rparr> new_id now d =
       (Res 200 (Doc (Some \<lparr>task_id = new_id, user = u, title = ttl, status = ''todo'',
                            createdAt = now, updatedAt = now\<rparr>)),
        d @ [\<lparr>task_id = new_id, user = u, title = ttl, status = ''todo'',
               createdAt = now, updatedAt = now\<rparr>])"
  by (simp add: createTask_def Task_create_def enum_status_def Let_def)

lemma create_cases:
  "createTask usr b new_id now d = (r, d') \<Longrightarrow>
     d' = d \<and> r \<noteq> Res 200 p \<or>
     (\<exists>u ttl. usr = Some u \<and> body_title b = Some ttl \<and> ttl \<noteq> [] \<and>
        r = Res 200 (Doc (Some \<lparr>task_id = new_id, user = u, title = ttl, status = ''todo'',
                                 createdAt = now, updatedAt = now\<rparr>)) \<and>
        d' = d @ [\<lparr>task_id = new_id, user = u, title = ttl, status = ''todo'',
                    createdAt = now, updatedAt = now\<rparr>])"
  by (auto simp: createTask_def Task_create_def Let_def split: option.splits if_splits)

text \<open>
  Claim C6. A create that answers 200 was made by an acting user \<open>u\<close> with a non-empty
  title and has appended exactly one document, owned by \<open>u\<close>, with that title and status
  \<^verbatim>\<open>todo\<close>, which is also the answer; with a non-empty title, an acting user and a
  fresh identifier the create does answer 200. When \<open>u\<close> had no task before,
  \<open>createTask\<close> with title "Buy milk" followed by \<open>getTasks\<close> answers the list of exactly
  that one task, titled "Buy milk" with status \<^verbatim>\<open>todo\<close>.
\<close>

theorem C6_create_then_list:
  "(createTask usr b new_id now d = (Res 200 p, d') \<longrightarrow>
      (\<exists>u ttl. usr = Some u \<and> body_title b = Some ttl \<and> ttl \<noteq> [] \<and>
         p = Doc (Some \<lparr>task_id = new_id, user = u, title = ttl, status = ''todo'',
                         createdAt = now, updatedAt = now\<rparr>) \<and>
         d' = d @ [\<lparr>task_id = new_id, user = u, title = ttl, status = ''todo'',
                     createdAt = now, updatedAt = now\<rparr>])) \<and>
   (ttl \<noteq> [] \<and> new_id \<notin> task_id ` set d \<longrightarrow>
      createTask (Some u) \<lparr>body_title = Some ttl, body_status = bs, body_user = bu\<rparr> new_id now d =
        (Res 200 (Doc (Some \<lparr>task_id = new_id, user = u, title = ttl, status = ''todo'',
                             createdAt = now, updatedAt = now\<rparr>)),
         d @ [\<lparr>task_id = new_id, user = u, title = ttl, status = ''todo'',
                createdAt = now, updatedAt = now\<rparr>])) \<and>
   (Task_find u d = [] \<and> new_id \<notin> task_id ` set d \<longrightarrow>
      fst (getTasks (Some u)
        (snd (createTask (Some u) \<lparr>body_title = Some ''Buy milk'', body_status = bs, body_user = bu\<rparr>
                new_id now d))) =
        Res 200 (Tasks [\<lparr>task_id = new_id, user = u, title = ''Buy milk'', status = ''todo'',
                         createdAt = now, updatedAt = now\<rparr>]))"
proof (intro conjI impI)
  assume "createTask usr b new_id now d = (Res 200 p, d')"
  from create_cases [OF this, of p]
  show "\<exists>u ttl. usr = Some u \<and> body_title b = Some ttl \<and> ttl \<noteq> [] \<and>
         p = Doc (Some \<lparr>task_id = new_id, user = u, title = ttl, status = ''todo'',
                         createdAt = now, updatedAt = now\<rparr>) \<and>
         d' = d @ [\<lparr>task_id = new_id, user = u, title = ttl, status = ''todo'',
                     createdAt = now, updatedAt = now\<rparr>]"
    by auto
next
  assume "ttl \<noteq> [] \<and> new_id \<notin> task_id ` set d"
  then show "createTask (Some u) \<lparr>body_title = Some ttl, body_status = bs, body_user = bu\<rparr> new_id now d =
        (Res 200 (Doc (Some \<lparr>task_id = new_id, user = u, title = ttl, status = ''todo'',
                             createdAt = now, updatedAt = now\<rparr>)),
         d @ [\<lparr>task_id = new_id, user = u, title = ttl, status = ''todo'',
                createdAt = now, updatedAt = now\<rparr>])"
    by (simp add: create_fresh)
next
  assume a: "Task_find u d = [] \<and> new_id \<notin> task_id ` set d"
  then have "createTask (Some u) \<lparr>body_title = Some ''Buy milk'', body_status = bs, body_user = bu\<rparr>
                new_id now d =
        (Res 200 (Doc (Some \<lparr>task_id = new_id, user = u, title = ''Buy milk'', status = ''todo'',
                             createdAt = now, updatedAt = now\<rparr>)),
         d @ [\<lparr>task_id = new_id, user = u, title = ''Buy milk'', status = ''todo'',
                createdAt = now, updatedAt = now\<rparr>])"
    by (simp add: create_fresh)
  moreover from a have "filter (\<lambda>t. user t = u) d = []"
    by (simp add: Task_find_def)
  ultimately show "fst (getTasks (Some u)
        (snd (createTask (Some u) \<lparr>body_title = Some ''Buy milk'', body_status = bs, body_user = bu\<rparr>
                new_id now d))) =
        Res 200 (Tasks [\<lparr>task_id = new_id, user = u, title = ''Buy milk'', status = ''todo'',
                         createdAt = now, updatedAt = now\<rparr>])"
    by (simp add: getTasks_def Task_find_def)
qed

theorem C6_create_then_list_witness:
  "''Buy milk'' \<noteq> [] \<and>
   createTask (Some 1) \<lparr>body_title = Some ''Buy milk'', body_status = None, body_user = None\<rparr> 8 20
     [\<lparr>task_id = 7, user = 2, title = ''Write spec'', status = ''todo'', createdAt = 10, updatedAt = 10\<rparr>] =
     (Res 200 (Doc (Some \<lparr>task_id = 8, user = 1, title = ''Buy milk'', status = ''todo'',
                          createdAt = 20, updatedAt = 20\<rparr>)),
      [\<lparr>task_id = 7, user = 2, title = ''Write spec'', status = ''todo'', createdAt = 10, updatedAt = 10\<rparr>,
       \<lparr>task_id = 8, user = 1, title = ''Buy milk'', status = ''todo'', createdAt = 20, updatedAt = 20\<rparr>]) \<and>
   Task_find 1
     [\<lparr>task_id = 7, user = 2, title = ''Write spec'', status = ''todo'', createdAt = 10, updatedAt = 10\<rparr>] = [] \<and>
   (8::nat) \<notin> task_id ` set
     [\<lparr>task_id = 7, user = 2, title = ''Write spec'', status = ''todo'', createdAt = 10, updatedAt = 10\<rparr>] \<and>
   fst (getTasks (Some 1)
     (snd (createTask (Some 1) \<lparr>body_title = Some ''Buy milk'', body_status = None, body_user = None\<rparr> 8 20
        [\<lparr>task_id = 7, user = 2, title = ''Write spec'', status = ''todo'', createdAt = 10, updatedAt = 10\<rparr>]))) =
     Res 200 (Tasks [\<lparr>task_id = 8, user = 1, title = ''Buy milk'', status = ''todo'',
                      createdAt = 20, updatedAt = 20\<rparr>])"
  using C6_create_then_list
    [of "Some 1" "\<lparr>body_title = Some ''Buy milk'', body_status = None, body_user = None\<rparr>" 8 20
        "[\<lparr>task_id = 7, user = 2, title = ''Write spec'', status = ''todo'', createdAt = 10, updatedAt = 10\<rparr>]"
        "Doc (Some \<lparr>task_id = 8, user = 1, title = ''Buy milk'', status = ''todo'',
                          createdAt = 20, updatedAt = 20\<rparr>)"
        "[\<lparr>task_id = 7, user = 2, title = ''Write spec'', status = ''todo'', createdAt = 10, updatedAt = 10\<rparr>,
       \<lparr>task_id = 8, user = 1, title = ''Buy milk'', status = ''todo'', createdAt = 20, updatedAt = 20\<rparr>]"
        "''Buy milk''" 1 None None]
  by (simp add: Task_find_def getTasks_def createTask_def Task_create_def enum_status_def Let_def)

section \<open>What an update by the owner may change\<close>

lemma update_first_map:
  "distinct (map task_id d) \<Longrightarrow> task_id y = k \<Longrightarrow>
     update_first (\<lambda>x. task_id x = k) y d = map (\<lambda>x. if task_id x = k then y else x) d"
proof (induction d)
  case Nil
  then show ?case by simp
next
  case (Cons a d)
  show ?case
  proof (cases "task_id a = k")
    case True
    with Cons.prems have "k \<notin> task_id ` set d" by auto
    then have "map (\<lambda>x. if task_id x = k then y else x) d = d"
      by (induction d) auto
    with True show ?thesis by simp
  next
    case False
    with Cons show ?thesis by simp
  qed
qed

lemma update_own:
  "unique_ids d \<Longrightarrow> T \<in> set d \<Longrightarrow> body_user b \<noteq> Some NotAnId \<Longrightarrow>
     updateTask (Some (user T)) (Hex (task_id T)) b now d =
       (Res 200 (Doc (Some (apply_update b now T))),
        map (\<lambda>x. if task_id x = task_id T then apply_update b now T else x) d)"
  by (simp add: updateTask_def findById_present Task_findByIdAndUpdate_def find_present
      unique_ids_def update_first_map Let_def)

lemma update_own_bad_user:
  "unique_ids d \<Longrightarrow> T \<in> set d \<Longrightarrow> body_user b = Some NotAnId \<Longrightarrow>
     updateTask (Some (user T)) (Hex (task_id T)) b now d = (Res 500 (ErrorMessage CastError), d)"
  by (simp add: updateTask_def findById_present Task_findByIdAndUpdate_def)

lemma update_keeps_owners:
  "body_user b = None \<Longrightarrow>
     map (\<lambda>t. (task_id t, user t, createdAt t)) (snd (updateTask usr i b now d)) =
     map (\<lambda>t. (task_id t, user t, createdAt t)) d"
  by (auto simp: updateTask_def Task_findById_def Task_findByIdAndUpdate_def Let_def
      apply_update_def map_update_first
      split: id_string.splits option.splits)

lemma update_foreign:
  "unique_ids d \<Longrightarrow> T \<in> set d \<Longrightarrow> usr \<noteq> Some (user T) \<Longrightarrow>
     snd (updateTask usr (Hex (task_id T)) b now d) = d"
  by (auto simp: updateTask_def findById_present split: option.splits)

text \<open>
  Claim C3 as stated fails. The owner (user 1) of task 7 sends an update whose body is
  \<^verbatim>\<open>{ user: <user 2> }\<close>: \<open>updateTask\<close> answers 200 and the stored task now belongs to
  user 2.
\<close>

theorem C3_owner_reassigned:
  "updateTask (Some 1) (Hex 7) \<lparr>body_title = None, body_status = None, body_user = Some (Hex 2)\<rparr> 20
     [\<lparr>task_id = 7, user = 1, title = ''Write spec'', status = ''todo'', createdAt = 10, updatedAt = 10\<rparr>] =
     (Res 200 (Doc (Some \<lparr>task_id = 7, user = 2, title = ''Write spec'', status = ''todo'',
                          createdAt = 10, updatedAt = 20\<rparr>)),
      [\<lparr>task_id = 7, user = 2, title = ''Write spec'', status = ''todo'', createdAt = 10, updatedAt = 20\<rparr>])"
  by (simp add: updateTask_def Task_findById_def Task_findByIdAndUpdate_def apply_update_def Let_def)

text \<open>
  Claim C3, amended. An update by the owner of a stored task \<open>T\<close> changes no other
  document, and the document \<open>T'\<close> it leaves in the place of \<open>T\<close> has the id and
  \<^verbatim>\<open>createdAt\<close> of \<open>T\<close>; its title, its status and its owner are those of \<open>T\<close>
  unless the body carries that field. So besides title and status (and \<^verbatim>\<open>updatedAt\<close>)
  only the owner may change, and only when the body has a \<^verbatim>\<open>user\<close> field. No update
  without that field, by whomever and on whatever id, changes the id, the owner or
  \<^verbatim>\<open>createdAt\<close> of any stored task; an update by anyone but the owner changes nothing;
  \<open>getTasks\<close> changes nothing, \<open>createTask\<close> only appends and \<open>deleteTask\<close> only removes.
\<close>

theorem C3_update_frame:
  "(unique_ids d \<and> T \<in> set d \<longrightarrow>
      (\<exists>r T'. updateTask (Some (user T)) (Hex (task_id T)) b now d =
                 (r, map (\<lambda>x. if task_id x = task_id T then T' else x) d) \<and>
               task_id T' = task_id T \<and> createdAt T' = createdAt T \<and>
               (body_title b = None \<longrightarrow> title T' = title T) \<and>
               (body_status b = None \<longrightarrow> status T' = status T) \<and>
               (body_user b = None \<longrightarrow> user T' = user T \<and> r = Res 200 (Doc (Some T'))))) \<and>
   (body_user b = None \<longrightarrow>
      map (\<lambda>t. (task_id t, user t, createdAt t)) (snd (updateTask usr i b now d)) =
      map (\<lambda>t. (task_id t, user t, createdAt t)) d) \<and>
   (unique_ids d \<and> T \<in> set d \<and> usr \<noteq> Some (user T) \<longrightarrow>
      snd (updateTask usr (Hex (task_id T)) b now d) = d) \<and>
   snd (getTasks usr d) = d \<and>
   (\<exists>new. snd (createTask usr b new_id now d) = d @ new) \<and>
   set (snd (deleteTask usr i d)) \<subseteq> set d"
proof (intro conjI impI)
  assume a: "unique_ids d \<and> T \<in> set d"
  show "\<exists>r T'. updateTask (Some (user T)) (Hex (task_id T)) b now d =
                 (r, map (\<lambda>x. if task_id x = task_id T then T' else x) d) \<and>
               task_id T' = task_id T \<and> createdAt T' = createdAt T \<and>
               (body_title b = None \<longrightarrow> title T' = title T) \<and>
               (body_status b = None \<longrightarrow> status T' = status T) \<and>
               (body_user b = None \<longrightarrow> user T' = user T \<and> r = Res 200 (Doc (Some T')))"
  proof (cases "body_user b = Some NotAnId")
    case True
    have same: "map (\<lambda>x. if task_id x = task_id T then T else x) d = d"
      using a by (intro map_idI) (auto simp: unique_ids_def distinct_map inj_on_def)
    have "updateTask (Some (user T)) (Hex (task_id T)) b now d = (Res 500 (ErrorMessage CastError), d)"
      using a True by (simp add: update_own_bad_user)
    with same True show ?thesis
      by (intro exI [of _ "Res 500 (ErrorMessage CastError)"] exI [of _ T]) simp
  next
    case False
    let ?T' = "apply_update b now T"
    have "updateTask (Some (user T)) (Hex (task_id T)) b now d =
        (Res 200 (Doc (Some ?T')), map (\<lambda>x. if task_id x = task_id T then ?T' else x) d)"
      using a False by (simp add: update_own)
    moreover have "task_id ?T' = task_id T \<and> createdAt ?T' = createdAt T \<and>
        (body_title b = None \<longrightarrow> title ?T' = title T) \<and>
        (body_status b = None \<longrightarrow> status ?T' = status T) \<and>
        (body_user b = None \<longrightarrow> user ?T' = user T)"
      by (simp add: apply_update_def)
    ultimately show ?thesis
      by (intro exI [of _ "Res 200 (Doc (Some ?T'))"] exI [of _ ?T']) simp
  qed
next
  assume "body_user b = None"
  then show "map (\<lambda>t. (task_id t, user t, createdAt t)) (snd (updateTask usr i b now d)) =
      map (\<lambda>t. (task_id t, user t, createdAt t)) d"
    by (rule update_keeps_owners)
next
  assume "unique_ids d \<and> T \<in> set d \<and> usr \<noteq> Some (user T)"
  then show "snd (updateTask usr (Hex (task_id T)) b now d) = d"
    by (simp add: update_foreign)
next
  show "snd (getTasks usr d) = d" by (rule getTasks_keeps)
  show "\<exists>new. snd (createTask usr b new_id now d) = d @ new" by (rule createTask_appends)
  show "set (snd (deleteTask usr i d)) \<subseteq> set d" by (rule deleteTask_removes)
qed

theorem C3_update_frame_witness:
  "unique_ids
     [\<lparr>task_id = 7, user = 1, title = ''Write spec'', status = ''todo'', createdAt = 10, updatedAt = 10\<rparr>,
      \<lparr>task_id = 8, user = 2, title = ''Buy milk'', status = ''done'', createdAt = 11, updatedAt = 12\<rparr>] \<and>
   \<lparr>task_id = 7, user = 1, title = ''Write spec'', status = ''todo'', createdAt = 10, updatedAt = 10\<rparr>
     \<in> set
     [\<lparr>task_id = 7, user = 1, title = ''Write spec'', status = ''todo'', createdAt = 10, updatedAt = 10\<rparr>,
      \<lparr>task_id = 8, user = 2, title = ''Buy milk'', status = ''done'', createdAt = 11, updatedAt = 12\<rparr>] \<and>
   updateTask (Some 1) (Hex 7) \<lparr>body_title = None, body_status = Some ''done'', body_user = None\<rparr> 20
     [\<lparr>task_id = 7, user = 1, title = ''Write spec'', status = ''todo'', createdAt = 10, updatedAt = 10\<rparr>,
      \<lparr>task_id = 8, user = 2, title = ''Buy milk'', status = ''done'', createdAt = 11, updatedAt = 12\<rparr>] =
     (Res 200 (Doc (Some \<lparr>task_id = 7, user = 1, title = ''Write spec'', status = ''done'',
                          createdAt = 10, updatedAt = 20\<rparr>)),
      [\<lparr>task_id = 7, user = 1, title = ''Write spec'', status = ''done'', createdAt = 10, updatedAt = 20\<rparr>,
       \<lparr>task_id = 8, user = 2, title = ''Buy milk'', status = ''done'', createdAt = 11, updatedAt = 12\<rparr>])"
  using C3_update_frame
    [where d = "[\<lparr>task_id = 7, user = 1, title = ''Write spec'', status = ''todo'', createdAt = 10, updatedAt = 10\<rparr>,
          \<lparr>task_id = 8, user = 2, title = ''Buy milk'', status = ''done'', createdAt = 11, updatedAt = 12\<rparr>]"
       and T = "\<lparr>task_id = 7, user = 1, title = ''Write spec'', status = ''todo'', createdAt = 10, updatedAt = 10\<rparr>"
       and b = "\<lparr>body_title = None, body_status = Some ''done'', body_user = None\<rparr>"
       and now = 20 and usr = None and new_id = 9 and i = "Hex 7"]
  by (simp add: unique_ids_def updateTask_def Task_findById_def Task_findByIdAndUpdate_def
      apply_update_def Let_def)

section \<open>Titles\<close>

lemma list_all_update_first: "list_all P xs \<Longrightarrow> P y \<Longrightarrow> list_all P (update_first Q y xs)"
  by (induction xs) auto

lemma list_all_remove_first: "list_all P xs \<Longrightarrow> list_all P (remove_first Q xs)"
  by (induction xs) auto

lemma find_in_set: "find P xs = Some x \<Longrightarrow> x \<in> set xs"
  by (induction xs) (auto split: if_splits)

lemma create_no_title:
  "body_title b = None \<or> body_title b = Some [] \<Longrightarrow>
     createTask usr b new_id now d = (Res 400 (Message ''Please add a title''), d)"
  by (auto simp: createTask_def)

lemma create_keeps_titles:
  "list_all (\<lambda>t. title t \<noteq> []) d \<Longrightarrow>
     list_all (\<lambda>t. title t \<noteq> []) (snd (createTask usr b new_id now d))"
  by (auto simp: createTask_def Task_create_def Let_def split: option.splits)

lemma delete_keeps_titles:
  "list_all (\<lambda>t. title t \<noteq> []) d \<Longrightarrow> list_all (\<lambda>t. title t \<noteq> []) (snd (deleteTask usr i d))"
  by (auto simp: deleteTask_def deleteOne_def Task_findById_def list_all_remove_first
      split: id_string.splits option.splits)

lemma update_keeps_titles:
  assumes "list_all (\<lambda>t. title t \<noteq> []) d" and "body_title b \<noteq> Some []"
  shows "list_all (\<lambda>t. title t \<noteq> []) (snd (updateTask usr i b now d))"
proof -
  have "title (apply_update b now t) \<noteq> []" if "t \<in> set d" for t
    using that assms by (auto simp: apply_update_def list_all_iff split: option.splits)
  then show ?thesis
    using assms(1)
    by (auto simp: updateTask_def Task_findById_def Task_findByIdAndUpdate_def Let_def
        list_all_update_first
        split: id_string.splits option.splits dest: find_in_set)
qed

text \<open>
  Claim C4 as stated fails. \<open>createTask\<close> with the title of three spaces answers 200 and
  stores a task whose title is white space only.
\<close>

theorem C4_blank_title_persisted:
  "createTask (Some 1) \<lparr>body_title = Some ''   '', body_status = None, body_user = None\<rparr> 8 20 [] =
     (Res 200 (Doc (Some \<lparr>task_id = 8, user = 1, title = ''   '', status = ''todo'',
                          createdAt = 20, updatedAt = 20\<rparr>)),
      [\<lparr>task_id = 8, user = 1, title = ''   '', status = ''todo'', createdAt = 20, updatedAt = 20\<rparr>]) \<and>
   blank ''   ''"
  by (simp add: createTask_def Task_create_def enum_status_def Let_def blank_def is_space_def)

text \<open>
  Claim C4, amended. For every acting identity, absent included, \<open>createTask\<close> with a
  missing or empty title answers 400 "Please add a title" and leaves the collection as
  it was. When no stored title is empty, none is after a \<open>createTask\<close>, a \<open>getTasks\<close>, a
  \<open>deleteTask\<close>, or an \<open>updateTask\<close> whose body has no title or a non-empty one.
\<close>

theorem C4_create_title_validation:
  "(body_title b = None \<or> body_title b = Some [] \<longrightarrow>
      createTask usr b new_id now d = (Res 400 (Message ''Please add a title''), d)) \<and>
   (list_all (\<lambda>t. title t \<noteq> []) d \<longrightarrow>
      list_all (\<lambda>t. title t \<noteq> []) (snd (createTask usr b new_id now d)) \<and>
      list_all (\<lambda>t. title t \<noteq> []) (snd (getTasks usr d)) \<and>
      list_all (\<lambda>t. title t \<noteq> []) (snd (deleteTask usr i d)) \<and>
      (body_title b \<noteq> Some [] \<longrightarrow>
         list_all (\<lambda>t. title t \<noteq> []) (snd (updateTask usr i b now d))))"
  using create_no_title [of b usr new_id now d] create_keeps_titles [of d usr b new_id now]
    delete_keeps_titles [of d usr i] update_keeps_titles [of d b usr i now]
  by (simp add: getTasks_keeps)

theorem C4_create_title_validation_witness:
  "createTask (Some 1) \<lparr>body_title = Some [], body_status = None, body_user = None\<rparr> 8 20
     [\<lparr>task_id = 7, user = 2, title = ''Write spec'', status = ''todo'', createdAt = 10, updatedAt = 10\<rparr>] =
     (Res 400 (Message ''Please add a title''),
      [\<lparr>task_id = 7, user = 2, title = ''Write spec'', status = ''todo'', createdAt = 10, updatedAt = 10\<rparr>]) \<and>
   list_all (\<lambda>t. title t \<noteq> [])
     [\<lparr>task_id = 7, user = 2, title = ''Write spec'', status = ''todo'', createdAt = 10, updatedAt = 10\<rparr>] \<and>
   list_all (\<lambda>t. title t \<noteq> [])
     (snd (createTask (Some 1) \<lparr>body_title = Some ''Buy milk'', body_status = None, body_user = None\<rparr> 8 20
        [\<lparr>task_id = 7, user = 2, title = ''Write spec'', status = ''todo'', createdAt = 10, updatedAt = 10\<rparr>])) \<and>
   list_all (\<lambda>t. title t \<noteq> [])
     (snd (updateTask (Some 2) (Hex 7) \<lparr>body_title = Some ''Buy milk'', body_status = None, body_user = None\<rparr> 20
        [\<lparr>task_id = 7, user = 2, title = ''Write spec'', status = ''todo'', createdAt = 10, updatedAt = 10\<rparr>]))"
  using C4_create_title_validation
    [of "\<lparr>body_title = Some [], body_status = None, body_user = None\<rparr>" "Some 1" 8 20
        "[\<lparr>task_id = 7, user = 2, title = ''Write spec'', status = ''todo'', createdAt = 10, updatedAt = 10\<rparr>]"
        "Hex 7"]
    C4_create_title_validation
    [of "\<lparr>body_title = Some ''Buy milk'', body_status = None, body_user = None\<rparr>" "Some 1" 8 20
        "[\<lparr>task_id = 7, user = 2, title = ''Write spec'', status = ''todo'', createdAt = 10, updatedAt = 10\<rparr>]"
        "Hex 7"]
    C4_create_title_validation
    [of "\<lparr>body_title = Some ''Buy milk'', body_status = None, body_user = None\<rparr>" "Some 2" 8 20
        "[\<lparr>task_id = 7, user = 2, title = ''Write spec'', status = ''todo'', createdAt = 10, updatedAt = 10\<rparr>]"
        "Hex 7"]
  by simp

section \<open>Status values\<close>

text \<open>
  Claim C2 at a concrete request. The owner updates a stored task with a body whose
  status is "archived", which is no member of the schema's enum: \<open>updateTask\<close> answers
  200 and the collection holds the task with status "archived". (\<open>Task_create\<close>, the
  path of \<open>createTask\<close>, does reject such a status.)
\<close>

theorem C2_update_persists_status_outside_enum:
  "''archived'' \<notin> set enum_status \<and>
   Task_create 8 20 ''Write spec'' ''archived'' 2 [] = Inl ValidationError \<and>
   updateTask (Some 2) (Hex 7) \<lparr>body_title = None, body_status = Some ''archived'', body_user = None\<rparr> 20
     [\<lparr>task_id = 7, user = 2, title = ''Write spec'', status = ''todo'', createdAt = 10, updatedAt = 10\<rparr>] =
     (Res 200 (Doc (Some \<lparr>task_id = 7, user = 2, title = ''Write spec'', status = ''archived'',
                          createdAt = 10, updatedAt = 20\<rparr>)),
      [\<lparr>task_id = 7, user = 2, title = ''Write spec'', status = ''archived'', createdAt = 10, updatedAt = 20\<rparr>])"
  by (simp add: enum_status_def Task_create_def updateTask_def Task_findById_def
      Task_findByIdAndUpdate_def apply_update_def Let_def)

section \<open>Failed operations in the Dashboard\<close>

text \<open>
  Claim C8 as stated fails. The server answers an update with 404: \<open>handleUpdateStatus\<close>
  returns the state it was given, so nothing new is rendered, and its only effect is
  the line on the console.
\<close>

theorem C8_failure_only_logged:
  "handleUpdateStatus (Inl (AxiosError 404 (Message ''Task not found''))) ''7''
     \<lparr>tasks = [\<lparr>c_id = ''8'', c_title = ''Buy milk'', c_status = ''todo''\<rparr>], loading = False,
      newTaskTitle = [], filter_by = ''all''\<rparr> =
     (\<lparr>tasks = [\<lparr>c_id = ''8'', c_title = ''Buy milk'', c_status = ''todo''\<rparr>], loading = False,
       newTaskTitle = [], filter_by = ''all''\<rparr>,
      [ConsoleError (AxiosError 404 (Message ''Task not found''))]) \<and>
   \<not> list_ex user_visible
     (snd (handleUpdateStatus (Inl (AxiosError 404 (Message ''Task not found''))) ''7''
        \<lparr>tasks = [\<lparr>c_id = ''8'', c_title = ''Buy milk'', c_status = ''todo''\<rparr>], loading = False,
         newTaskTitle = [], filter_by = ''all''\<rparr>))"
  by (simp add: handleUpdateStatus_def user_visible_def)

text \<open>
  Claim C8, amended. A task operation of the Dashboard that fails is written to the
  console and shown nowhere: a failed update, delete or create returns the component's
  state exactly as it was, and a failed fetch changes only \<open>loading\<close>, so the task list
  is never touched and a rendering from the state shows no message; no effect after
  the call is visible to the user.
\<close>

theorem C8_failure_leaves_state:
  "handleUpdateStatus (Inl err) i s = (s, [ConsoleError err]) \<and>
   handleDelete True (Inl err) i s =
     (s, [Confirm ''Are you sure you want to delete this task?'', ConsoleError err]) \<and>
   fst (handleAddTask (Inl err) s) = s \<and>
   list_all (\<lambda>e. \<not> user_visible e) (snd (handleAddTask (Inl err) s)) \<and>
   fetchTasks (Inl err) s = (s\<lparr>loading := False\<rparr>, [ConsoleError err]) \<and>
   tasks (fst (fetchTasks (Inl err) s)) = tasks s"
  by (simp add: handleUpdateStatus_def handleDelete_def handleAddTask_def fetchTasks_def
      user_visible_def)

section \<open>The mock and the server behind the service layer\<close>

lemma mock_find_absent: "j \<notin> c_id ` set ts \<Longrightarrow> find (\<lambda>t. c_id t = j) ts = None"
  by (induction ts) auto

lemma mock_create:
  "MockBackend_createTask ttl now_str ls =
     (Inr \<lparr>c_id = now_str, c_title = ttl, c_status = ''todo''\<rparr>,
      Some (mock_tasks ls @ [\<lparr>c_id = now_str, c_title = ttl, c_status = ''todo''\<rparr>]))"
  by (simp add: MockBackend_createTask_def Let_def)

lemma service_create:
  "ttl \<noteq> [] \<Longrightarrow> new_id \<notin> task_id ` set d \<Longrightarrow>
     taskService_create (Some u) ttl new_id now d =
       (Inr (Doc (Some \<lparr>task_id = new_id, user = u, title = ttl, status = ''todo'',
                          createdAt = now, updatedAt = now\<rparr>)),
        d @ [\<lparr>task_id = new_id, user = u, title = ttl, status = ''todo'',
               createdAt = now, updatedAt = now\<rparr>])"
  by (simp add: taskService_create_def create_fresh axios_def)

lemma mock_update_missing:
  "j \<notin> c_id ` set (mock_tasks ls) \<Longrightarrow>
     MockBackend_updateTask j st ls = (Inl (Error ''Task not found''), ls)"
  by (simp add: MockBackend_updateTask_def Let_def mock_find_absent)

lemma service_update_missing:
  "k \<notin> task_id ` set d \<Longrightarrow>
     taskService_update usr (Hex k) st now d = (Inl (AxiosError 404 (Message ''Task not found'')), d)"
  by (simp add: taskService_update_def update_not_found axios_def)

lemma mock_update_present:
  "find (\<lambda>t. c_id t = j) (mock_tasks ls) = Some m \<Longrightarrow>
     MockBackend_updateTask j st ls =
       (Inr (m\<lparr>c_status := st\<rparr>),
        Some (update_first (\<lambda>x. c_id x = j) (m\<lparr>c_status := st\<rparr>) (mock_tasks ls)))"
  by (simp add: MockBackend_updateTask_def Let_def)

lemma service_update_present:
  "unique_ids d \<Longrightarrow> T \<in> set d \<Longrightarrow>
     taskService_update (Some (user T)) (Hex (task_id T)) st now d =
       (Inr (Doc (Some (T\<lparr>status := st, updatedAt := now\<rparr>))),
        map (\<lambda>x. if task_id x = task_id T then T\<lparr>status := st, updatedAt := now\<rparr> else x) d)"
  by (simp add: taskService_update_def update_own axios_def apply_update_def)

lemma mock_delete:
  "MockBackend_deleteTask j ls = (Inr True, Some (filter (\<lambda>t. c_id t \<noteq> j) (mock_tasks ls)))"
  by (simp add: MockBackend_deleteTask_def Let_def)

lemma service_delete_present:
  "unique_ids d \<Longrightarrow> T \<in> set d \<Longrightarrow>
     taskService_delete (Some (user T)) (Hex (task_id T)) d =
       (Inr (DeletedId (Hex (task_id T))), filter (\<lambda>x. task_id x \<noteq> task_id T) d)"
  by (simp add: taskService_delete_def delete_own axios_def)

text \<open>
  Claim C7 as stated fails. Create with the empty title: the mock stores and returns a
  task, the service rejects with the server's 400. List on an empty store: the mock
  seeds and returns three tasks, the service returns none.
\<close>

theorem C7_mock_accepts_empty_title:
  "MockBackend_createTask [] ''1700000000000'' None =
     (Inr \<lparr>c_id = ''1700000000000'', c_title = [], c_status = ''todo''\<rparr>,
      Some [\<lparr>c_id = ''1700000000000'', c_title = [], c_status = ''todo''\<rparr>]) \<and>
   taskService_create (Some 1) [] 8 20 [] =
     (Inl (AxiosError 400 (Message ''Please add a title'')), []) \<and>
   MockBackend_fetchTasks None = (Inr seed, Some seed) \<and>
   taskService_getAll (Some 1) [] = (Inr (Tasks []), [])"
  by (simp add: MockBackend_createTask_def MockBackend_fetchTasks_def mock_tasks_def Let_def
      taskService_create_def createTask_def taskService_getAll_def getTasks_def Task_find_def
      axios_def seed_def)

text \<open>
  Claim C7, amended. The mock and the server-backed service agree on these calls.
  Create with a non-empty title (and, on the server, an acting user and a fresh id):
  both append one task and return it, showing that title with status \<^verbatim>\<open>todo\<close>. Update
  of an id that no task has: both reject with "Task not found" and store nothing.
  Update of a stored task (on the server, by its owner) to a status of the enumeration,
  the two tasks showing the same title and status before: both replace the task in
  place by the one they return, and the two returned tasks show the same title and
  the new status. Delete of a stored task (on the server, by its owner): both resolve
  and keep exactly the tasks with another id. They differ on list (the mock is not
  scoped by owner and seeds three tasks into an empty store), on create with an empty
  title (the mock accepts it) and on what a delete resolves with.
\<close>

theorem C7_mock_agrees_with_service:
  "(ttl \<noteq> [] \<and> new_id \<notin> task_id ` set d \<longrightarrow>
      (\<exists>m t. MockBackend_createTask ttl now_str ls = (Inr m, Some (mock_tasks ls @ [m])) \<and>
             taskService_create (Some u) ttl new_id now d = (Inr (Doc (Some t)), d @ [t]) \<and>
             shown m = (ttl, ''todo'') \<and> shown_doc t = (ttl, ''todo''))) \<and>
   (j \<notin> c_id ` set (mock_tasks ls) \<and> k \<notin> task_id ` set d \<longrightarrow>
      MockBackend_updateTask j st ls = (Inl (Error ''Task not found''), ls) \<and>
      taskService_update usr (Hex k) st now d =
        (Inl (AxiosError 404 (Message ''Task not found'')), d)) \<and>
   (find (\<lambda>t. c_id t = j) (mock_tasks ls) = Some m \<and> unique_ids d \<and> T \<in> set d \<and>
    shown m = shown_doc T \<and> st \<in> set enum_status \<longrightarrow>
      (\<exists>m' T'. MockBackend_updateTask j st ls =
                 (Inr m', Some (update_first (\<lambda>x. c_id x = j) m' (mock_tasks ls))) \<and>
               taskService_update (Some (user T)) (Hex (task_id T)) st now d =
                 (Inr (Doc (Some T')), map (\<lambda>x. if task_id x = task_id T then T' else x) d) \<and>
               shown m' = (c_title m, st) \<and> shown_doc T' = shown m')) \<and>
   (j \<in> c_id ` set (mock_tasks ls) \<and> unique_ids d \<and> T \<in> set d \<longrightarrow>
      MockBackend_deleteTask j ls = (Inr True, Some (filter (\<lambda>t. c_id t \<noteq> j) (mock_tasks ls))) \<and>
      taskService_delete (Some (user T)) (Hex (task_id T)) d =
        (Inr (DeletedId (Hex (task_id T))), filter (\<lambda>x. task_id x \<noteq> task_id T) d))"
proof (intro conjI impI)
  assume "ttl \<noteq> [] \<and> new_id \<notin> task_id ` set d"
  then have "taskService_create (Some u) ttl new_id now d =
       (Inr (Doc (Some \<lparr>task_id = new_id, user = u, title = ttl, status = ''todo'',
                          createdAt = now, updatedAt = now\<rparr>)),
        d @ [\<lparr>task_id = new_id, user = u, title = ttl, status = ''todo'',
               createdAt = now, updatedAt = now\<rparr>])"
    by (simp add: service_create)
  then show "\<exists>m t. MockBackend_createTask ttl now_str ls = (Inr m, Some (mock_tasks ls @ [m])) \<and>
             taskService_create (Some u) ttl new_id now d = (Inr (Doc (Some t)), d @ [t]) \<and>
             shown m = (ttl, ''todo'') \<and> shown_doc t = (ttl, ''todo'')"
    using mock_create [of ttl now_str ls] by (simp add: shown_def shown_doc_def)
next
  assume a: "j \<notin> c_id ` set (mock_tasks ls) \<and> k \<notin> task_id ` set d"
  then show "MockBackend_updateTask j st ls = (Inl (Error ''Task not found''), ls)"
    by (simp add: mock_update_missing)
  from a show "taskService_update usr (Hex k) st now d =
        (Inl (AxiosError 404 (Message ''Task not found'')), d)"
    by (simp add: service_update_missing)
next
  assume a: "find (\<lambda>t. c_id t = j) (mock_tasks ls) = Some m \<and> unique_ids d \<and> T \<in> set d \<and>
    shown m = shown_doc T \<and> st \<in> set enum_status"
  let ?m' = "m\<lparr>c_status := st\<rparr>" and ?T' = "T\<lparr>status := st, updatedAt := now\<rparr>"
  have "MockBackend_updateTask j st ls =
      (Inr ?m', Some (update_first (\<lambda>x. c_id x = j) ?m' (mock_tasks ls)))"
    using a by (simp add: mock_update_present)
  moreover have "taskService_update (Some (user T)) (Hex (task_id T)) st now d =
      (Inr (Doc (Some ?T')), map (\<lambda>x. if task_id x = task_id T then ?T' else x) d)"
    using a by (simp add: service_update_present)
  moreover have "shown ?m' = (c_title m, st) \<and> shown_doc ?T' = shown ?m'"
    using a by (simp add: shown_def shown_doc_def)
  ultimately show "\<exists>m' T'. MockBackend_updateTask j st ls =
                 (Inr m', Some (update_first (\<lambda>x. c_id x = j) m' (mock_tasks ls))) \<and>
               taskService_update (Some (user T)) (Hex (task_id T)) st now d =
                 (Inr (Doc (Some T')), map (\<lambda>x. if task_id x = task_id T then T' else x) d) \<and>
               shown m' = (c_title m, st) \<and> shown_doc T' = shown m'"
    by blast
next
  assume a: "j \<in> c_id ` set (mock_tasks ls) \<and> unique_ids d \<and> T \<in> set d"
  show "MockBackend_deleteTask j ls = (Inr True, Some (filter (\<lambda>t. c_id t \<noteq> j) (mock_tasks ls)))"
    by (rule mock_delete)
  from a show "taskService_delete (Some (user T)) (Hex (task_id T)) d =
        (Inr (DeletedId (Hex (task_id T))), filter (\<lambda>x. task_id x \<noteq> task_id T) d)"
    by (simp add: service_delete_present)
qed

theorem C7_mock_agrees_with_service_witness:
  "''Buy milk'' \<noteq> [] \<and>
   (8::nat) \<notin> task_id ` set [\<lparr>task_id = 7, user = 2, title = ''Write spec'', status = ''todo'', createdAt = 10, updatedAt = 10\<rparr>] \<and>
   ''9'' \<notin> c_id ` set (mock_tasks (Some [\<lparr>c_id = ''7'', c_title = ''Write spec'', c_status = ''todo''\<rparr>])) \<and>
   (9::nat) \<notin> task_id ` set [\<lparr>task_id = 7, user = 2, title = ''Write spec'', status = ''todo'', createdAt = 10, updatedAt = 10\<rparr>] \<and>
   find (\<lambda>t. c_id t = ''7'') (mock_tasks (Some [\<lparr>c_id = ''7'', c_title = ''Write spec'', c_status = ''todo''\<rparr>])) =
     Some \<lparr>c_id = ''7'', c_title = ''Write spec'', c_status = ''todo''\<rparr> \<and>
   unique_ids [\<lparr>task_id = 7, user = 2, title = ''Write spec'', status = ''todo'', createdAt = 10, updatedAt = 10\<rparr>] \<and>
   shown \<lparr>c_id = ''7'', c_title = ''Write spec'', c_status = ''todo''\<rparr> =
     shown_doc \<lparr>task_id = 7, user = 2, title = ''Write spec'', status = ''todo'', createdAt = 10, updatedAt = 10\<rparr> \<and>
   ''done'' \<in> set enum_status \<and>
   MockBackend_createTask ''Buy milk'' ''1700000000000''
     (Some [\<lparr>c_id = ''7'', c_title = ''Write spec'', c_status = ''todo''\<rparr>]) =
     (Inr \<lparr>c_id = ''1700000000000'', c_title = ''Buy milk'', c_status = ''todo''\<rparr>,
      Some [\<lparr>c_id = ''7'', c_title = ''Write spec'', c_status = ''todo''\<rparr>,
            \<lparr>c_id = ''1700000000000'', c_title = ''Buy milk'', c_status = ''todo''\<rparr>]) \<and>
   taskService_create (Some 2) ''Buy milk'' 8 20
     [\<lparr>task_id = 7, user = 2, title = ''Write spec'', status = ''todo'', createdAt = 10, updatedAt = 10\<rparr>] =
     (Inr (Doc (Some \<lparr>task_id = 8, user = 2, title = ''Buy milk'', status = ''todo'',
                      createdAt = 20, updatedAt = 20\<rparr>)),
      [\<lparr>task_id = 7, user = 2, title = ''Write spec'', status = ''todo'', createdAt = 10, updatedAt = 10\<rparr>,
       \<lparr>task_id = 8, user = 2, title = ''Buy milk'', status = ''todo'', createdAt = 20, updatedAt = 20\<rparr>]) \<and>
   MockBackend_updateTask ''9'' ''done''
     (Some [\<lparr>c_id = ''7'', c_title = ''Write spec'', c_status = ''todo''\<rparr>]) =
     (Inl (Error ''Task not found''),
      Some [\<lparr>c_id = ''7'', c_title = ''Write spec'', c_status = ''todo''\<rparr>]) \<and>
   taskService_update (Some 2) (Hex 9) ''done'' 20
     [\<lparr>task_id = 7, user = 2, title = ''Write spec'', status = ''todo'', createdAt = 10, updatedAt = 10\<rparr>] =
     (Inl (AxiosError 404 (Message ''Task not found'')),
      [\<lparr>task_id = 7, user = 2, title = ''Write spec'', status = ''todo'', createdAt = 10, updatedAt = 10\<rparr>]) \<and>
   MockBackend_updateTask ''7'' ''done''
     (Some [\<lparr>c_id = ''7'', c_title = ''Write spec'', c_status = ''todo''\<rparr>]) =
     (Inr \<lparr>c_id = ''7'', c_title = ''Write spec'', c_status = ''done''\<rparr>,
      Some [\<lparr>c_id = ''7'', c_title = ''Write spec'', c_status = ''done''\<rparr>]) \<and>
   taskService_update (Some 2) (Hex 7) ''done'' 20
     [\<lparr>task_id = 7, user = 2, title = ''Write spec'', status = ''todo'', createdAt = 10, updatedAt = 10\<rparr>] =
     (Inr (Doc (Some \<lparr>task_id = 7, user = 2, title = ''Write spec'', status = ''done'',
                      createdAt = 10, updatedAt = 20\<rparr>)),
      [\<lparr>task_id = 7, user = 2, title = ''Write spec'', status = ''done'', createdAt = 10, updatedAt = 20\<rparr>]) \<and>
   MockBackend_deleteTask ''7''
     (Some [\<lparr>c_id = ''7'', c_title = ''Write spec'', c_status = ''todo''\<rparr>]) = (Inr True, Some []) \<and>
   taskService_delete (Some 2) (Hex 7)
     [\<lparr>task_id = 7, user = 2, title = ''Write spec'', status = ''todo'', createdAt = 10, updatedAt = 10\<rparr>] =
     (Inr (DeletedId (Hex 7)), [])"
  using C7_mock_agrees_with_service
    [where ttl = "''Buy milk''" and new_id = 8 and now_str = "''1700000000000''" and u = 2
       and ls = "Some [\<lparr>c_id = ''7'', c_title = ''Write spec'', c_status = ''todo''\<rparr>]"
       and d = "[\<lparr>task_id = 7, user = 2, title = ''Write spec'', status = ''todo'', createdAt = 10, updatedAt = 10\<rparr>]"
       and j = "''9''" and k = 9 and st = "''done''" and now = 20 and usr = "Some 2"
       and T = "\<lparr>task_id = 7, user = 2, title = ''Write spec'', status = ''todo'', createdAt = 10, updatedAt = 10\<rparr>"
       and m = "\<lparr>c_id = ''7'', c_title = ''Write spec'', c_status = ''todo''\<rparr>"]
    C7_mock_agrees_with_service
    [where ttl = "''Buy milk''" and new_id = 8 and now_str = "''1700000000000''" and u = 2
       and ls = "Some [\<lparr>c_id = ''7'', c_title = ''Write spec'', c_status = ''todo''\<rparr>]"
       and d = "[\<lparr>task_id = 7, user = 2, title = ''Write spec'', status = ''todo'', createdAt = 10, updatedAt = 10\<rparr>]"
       and j = "''7''" and k = 9 and st = "''done''" and now = 20 and usr = "Some 2"
       and T = "\<lparr>task_id = 7, user = 2, title = ''Write spec'', status = ''todo'', createdAt = 10, updatedAt = 10\<rparr>"
       and m = "\<lparr>c_id = ''7'', c_title = ''Write spec'', c_status = ''todo''\<rparr>"]
  by (simp add: mock_tasks_def unique_ids_def shown_def shown_doc_def enum_status_def Let_def
      MockBackend_createTask_def MockBackend_updateTask_def MockBackend_deleteTask_def
      taskService_create_def taskService_update_def taskService_delete_def axios_def
      createTask_def updateTask_def deleteTask_def deleteOne_def Task_create_def Task_findById_def
      Task_findByIdAndUpdate_def apply_update_def)

end
